theory Spec2Isabelle
  imports Complex_Main "HOL-Library.AList"
begin

section \<open>Values shared by the components\<close>

text \<open>
  JSON data: what the payload dictionaries of the repository hold (strings, numbers,
  booleans, None, lists and dictionaries with string keys). A Python float is the rational
  it denotes; a dictionary is an association list in insertion order.
\<close>

datatype json =
    JNull
  | JBool bool
  | JInt int
  | JFloat rat
  | JStr string
  | JTime int
  | JList "json list"
  | JDict "(string \<times> json) list"

text \<open>
  \<open>datetime.utcnow()\<close> is an input of every function that reads the clock: the reading, in
  microseconds since the epoch. The source stores \<open>isoformat()\<close> of the reading and gets
  the reading back with \<open>fromisoformat\<close>; the model stores the reading, and \<open>JTime t\<close> is
  the JSON string holding the ISO text of \<open>t\<close>.
\<close>

type_synonym datetime = int


datatype level = WARNING | ERROR | CRITICAL

datatype exn = TypeError string | ValueError string | KeyError string

text \<open>A string between single quotes, as the f-strings and \<open>repr\<close> of the source write it.\<close>

definition quoted :: "string \<Rightarrow> string" where
  "quoted s = CHR 0x27 # s @ [CHR 0x27]"

text \<open>\<open>str(e)\<close> of a caught exception (\<open>str\<close> of a KeyError is the repr of the key).\<close>

fun str_exn :: "exn \<Rightarrow> string" where
  "str_exn (TypeError m) = m"
| "str_exn (ValueError m) = m"
| "str_exn (KeyError k) = quoted k"

section \<open>event\_bus.py\<close>

















section \<open>context\_store.py\<close>

text \<open>\<open>d.update(e)\<close> on dictionaries: a key already present keeps its place.\<close>

definition dict_update :: "(string \<times> json) list \<Rightarrow> (string \<times> json) list \<Rightarrow> (string \<times> json) list" where
  "dict_update d e = foldl (\<lambda>acc kv. AList.update (fst kv) (snd kv) acc) d e"

text \<open>\<open>xs[-1].field = v\<close>, under the guard \<open>if xs:\<close> of the source.\<close>

definition update_last :: "('a \<Rightarrow> 'a) \<Rightarrow> 'a list \<Rightarrow> 'a list" where
  "update_last f xs = (if xs = [] then [] else butlast xs @ [f (last xs)])"

record Message =
  sender :: string
  msg_text :: string
  msg_timestamp :: datetime
  intent_label :: "string option"
  sentiment_label :: "string option"
  msg_entities :: "(string \<times> json) list option"
  agent_action :: "(string \<times> json) list option"

text \<open>The keyword arguments \<open>add_message\<close> passes on to \<open>Message\<close>.\<close>

record kwargs =
  kw_intent_label :: "string option"
  kw_sentiment_label :: "string option"
  kw_entities :: "(string \<times> json) list option"
  kw_agent_action :: "(string \<times> json) list option"

definition no_kwargs :: kwargs where
  "no_kwargs =
     \<lparr>kw_intent_label = None, kw_sentiment_label = None, kw_entities = None,
      kw_agent_action = None\<rparr>"

definition Message_to_dict :: "Message \<Rightarrow> (string \<times> json) list" where
  "Message_to_dict m =
     [(''sender'', JStr (sender m)), (''text'', JStr (msg_text m)),
      (''timestamp'', JTime (msg_timestamp m))]
     @ (case intent_label m of None \<Rightarrow> [] | Some l \<Rightarrow> [(''intent_label'', JStr l)])
     @ (case sentiment_label m of None \<Rightarrow> [] | Some l \<Rightarrow> [(''sentiment_label'', JStr l)])
     @ (case msg_entities m of None \<Rightarrow> [] | Some d \<Rightarrow> [(''entities'', JDict d)])
     @ (case agent_action m of None \<Rightarrow> [] | Some d \<Rightarrow> [(''agent_action'', JDict d)])"

record ConversationContext =
  session_id :: string
  start_time :: datetime
  customer_email :: "string option"
  customer_id :: "string option"
  status :: string
  current_sentiment :: "string option"
  current_intent :: "string option"
  intent_confidence :: "rat option"
  messages :: "Message list"
  entities :: "(string \<times> json) list"
  metadata :: "(string \<times> json) list"
  escalation_reason :: "string option"
  operator_id :: "string option"

definition new_ConversationContext ::
  "string \<Rightarrow> datetime \<Rightarrow> string option \<Rightarrow> ConversationContext" where
  "new_ConversationContext sid now email =
     \<lparr>session_id = sid, start_time = now, customer_email = email, customer_id = None,
      status = ''ACTIVE'', current_sentiment = None, current_intent = None,
      intent_confidence = None, messages = [], entities = [], metadata = [],
      escalation_reason = None, operator_id = None\<rparr>"

definition get_user_message_history :: "ConversationContext \<Rightarrow> string list" where
  "get_user_message_history c = map msg_text (filter (\<lambda>m. sender m = ''USER'') (messages c))"

definition add_message ::
  "string \<Rightarrow> string \<Rightarrow> kwargs \<Rightarrow> datetime \<Rightarrow> ConversationContext
     \<Rightarrow> Message \<times> ConversationContext" where
  "add_message sndr txt kw now c =
     (let msg = \<lparr>sender = sndr, msg_text = txt, msg_timestamp = now,
                 intent_label = kw_intent_label kw, sentiment_label = kw_sentiment_label kw,
                 msg_entities = kw_entities kw, agent_action = kw_agent_action kw\<rparr>
      in (msg, c\<lparr>messages := messages c @ [msg]\<rparr>))"

definition update_sentiment ::
  "string \<Rightarrow> rat option \<Rightarrow> ConversationContext \<Rightarrow> ConversationContext" where
  "update_sentiment sentiment confidence c =
     c\<lparr>current_sentiment := Some sentiment,
       messages := update_last (\<lambda>m. m\<lparr>sentiment_label := Some sentiment\<rparr>) (messages c)\<rparr>"

definition update_intent :: "string \<Rightarrow> rat \<Rightarrow> ConversationContext \<Rightarrow> ConversationContext" where
  "update_intent intent confidence c =
     c\<lparr>current_intent := Some intent,
       intent_confidence := Some confidence,
       messages := update_last (\<lambda>m. m\<lparr>intent_label := Some intent\<rparr>) (messages c)\<rparr>"

definition merge_entities ::
  "(string \<times> json) list \<Rightarrow> ConversationContext \<Rightarrow> ConversationContext" where
  "merge_entities e c =
     c\<lparr>entities := dict_update (entities c) e,
       messages :=
         update_last
           (\<lambda>m. m\<lparr>msg_entities :=
                   Some (dict_update (case msg_entities m of None \<Rightarrow> [] | Some d \<Rightarrow> d) e)\<rparr>)
           (messages c)\<rparr>"

definition escalate :: "string \<Rightarrow> ConversationContext \<Rightarrow> ConversationContext" where
  "escalate reason c = c\<lparr>status := ''ESCALATED'', escalation_reason := Some reason\<rparr>"

definition resolve :: "ConversationContext \<Rightarrow> ConversationContext" where
  "resolve c = c\<lparr>status := ''RESOLVED''\<rparr>"

definition json_opt_str :: "string option \<Rightarrow> json" where
  "json_opt_str v = (case v of None \<Rightarrow> JNull | Some s \<Rightarrow> JStr s)"

definition to_dict :: "ConversationContext \<Rightarrow> (string \<times> json) list" where
  "to_dict c =
     [(''session_id'', JStr (session_id c)),
      (''start_time'', JTime (start_time c)),
      (''customer_email'', json_opt_str (customer_email c)),
      (''customer_id'', json_opt_str (customer_id c)),
      (''status'', JStr (status c)),
      (''current_sentiment'', json_opt_str (current_sentiment c)),
      (''current_intent'', json_opt_str (current_intent c)),
      (''intent_confidence'',
         (case intent_confidence c of None \<Rightarrow> JNull | Some x \<Rightarrow> JFloat x)),
      (''messages'', JList (map (\<lambda>m. JDict (Message_to_dict m)) (messages c))),
      (''entities'', JDict (entities c)),
      (''metadata'', JDict (metadata c)),
      (''escalation_reason'', json_opt_str (escalation_reason c)),
      (''operator_id'', json_opt_str (operator_id c))]"

text \<open>
  The operations of one context, as a caller may issue them in any order, and the context
  after a sequence of them.
\<close>

datatype context_op =
    AddMessage string string kwargs datetime
  | UpdateSentiment string "rat option"
  | UpdateIntent string rat
  | MergeEntities "(string \<times> json) list"
  | Escalate string
  | Resolve

fun apply_context_op :: "ConversationContext \<Rightarrow> context_op \<Rightarrow> ConversationContext" where
  "apply_context_op c (AddMessage sndr txt kw now) = snd (add_message sndr txt kw now c)"
| "apply_context_op c (UpdateSentiment s conf) = update_sentiment s conf c"
| "apply_context_op c (UpdateIntent i conf) = update_intent i conf c"
| "apply_context_op c (MergeEntities e) = merge_entities e c"
| "apply_context_op c (Escalate reason) = escalate reason c"
| "apply_context_op c Resolve = resolve c"



record ContextStore =
  contexts :: "string \<rightharpoonup> ConversationContext"
  sessions_created :: int
  sessions_active :: int
  sessions_ended :: int
  total_messages :: int

definition ContextStore_init :: ContextStore where
  "ContextStore_init =
     \<lparr>contexts = Map.empty, sessions_created = 0, sessions_active = 0, sessions_ended = 0,
      total_messages = 0\<rparr>"

definition create_session ::
  "string \<Rightarrow> string option \<Rightarrow> datetime \<Rightarrow> ContextStore
     \<Rightarrow> (exn + ConversationContext) \<times> ContextStore" where
  "create_session sid email now st =
     (if sid \<in> dom (contexts st)
      then (Inl (ValueError (''Session '' @ sid @ '' already exists'')), st)
      else
        let c = new_ConversationContext sid now email
        in (Inr c,
            st\<lparr>contexts := (contexts st)(sid \<mapsto> c),
               sessions_created := sessions_created st + 1,
               sessions_active := sessions_active st + 1\<rparr>))"

definition get :: "string \<Rightarrow> ContextStore \<Rightarrow> ConversationContext option" where
  "get sid st = contexts st sid"

definition get_or_create ::
  "string \<Rightarrow> string option \<Rightarrow> datetime \<Rightarrow> ContextStore
     \<Rightarrow> (exn + ConversationContext) \<times> ContextStore" where
  "get_or_create sid email now st =
     (case get sid st of
        None \<Rightarrow> create_session sid email now st
      | Some c \<Rightarrow> (Inr c, st))"

definition store_add_message ::
  "string \<Rightarrow> string \<Rightarrow> string \<Rightarrow> kwargs \<Rightarrow> datetime \<Rightarrow> ContextStore
     \<Rightarrow> Message option \<times> ContextStore \<times> (level \<times> string) list" where
  "store_add_message sid sndr txt kw now st =
     (case contexts st sid of
        None \<Rightarrow>
          (None, st, [(WARNING, ''Cannot add message to non-existent session: '' @ sid)])
      | Some c \<Rightarrow>
          (case add_message sndr txt kw now c of
             (msg, c') \<Rightarrow>
               (Some msg,
                st\<lparr>contexts := (contexts st)(sid \<mapsto> c'),
                   total_messages := total_messages st + 1\<rparr>,
                [])))"

text \<open>\<open>if context:\<close> holds for every context that \<open>pop\<close> found.\<close>

definition delete :: "string \<Rightarrow> ContextStore \<Rightarrow> ConversationContext option \<times> ContextStore" where
  "delete sid st =
     (case contexts st sid of
        None \<Rightarrow> (None, st)
      | Some c \<Rightarrow>
          (Some c,
           st\<lparr>contexts := (contexts st)(sid := None),
              sessions_active := sessions_active st - 1,
              sessions_ended := sessions_ended st + 1\<rparr>))"

text \<open>
  A context is an object the store holds by reference: a caller that got it from the
  store and changes a field changes the store's context. \<open>mutate\<close> is that write.
\<close>

definition mutate :: "string \<Rightarrow> ConversationContext \<Rightarrow> ContextStore \<Rightarrow> ContextStore" where
  "mutate sid c st = st\<lparr>contexts := (contexts st)(sid \<mapsto> c)\<rparr>"

text \<open>The calls on the registry, and the registry after a sequence of them.\<close>

datatype store_op =
    CreateSession string "string option" datetime
  | Get string
  | GetOrCreate string "string option" datetime
  | StoreAddMessage string string string kwargs datetime
  | Delete string

fun apply_store_op :: "ContextStore \<Rightarrow> store_op \<Rightarrow> ContextStore" where
  "apply_store_op st (CreateSession sid email now) = snd (create_session sid email now st)"
| "apply_store_op st (Get sid) = st"
| "apply_store_op st (GetOrCreate sid email now) = snd (get_or_create sid email now st)"
| "apply_store_op st (StoreAddMessage sid sndr txt kw now) =
     fst (snd (store_add_message sid sndr txt kw now st))"
| "apply_store_op st (Delete sid) = snd (delete sid st)"

section \<open>agents/coordinator.py\<close>

text \<open>
  What a handler of an agent does besides changing the agent, in order: its calls of
  \<open>bus.publish\<close> (event type and payload) and the lines it logs at warning level or above.
  A number formatted into a line is left out of the line. The payloads are JSON data, so
  \<open>publish\<close> returns on each of them; what the subscribers of the published event do is
  not part of the handler.
\<close>

datatype effect = Publish string "(string \<times> json) list" | Log level string

text \<open>The event types of the calls of \<open>bus.publish\<close> among the effects, and the calls for one type.\<close>

fun published :: "effect list \<Rightarrow> string list" where
  "published [] = []"
| "published (Publish et p # fx) = et # published fx"
| "published (Log l m # fx) = published fx"

fun payloads :: "string \<Rightarrow> effect list \<Rightarrow> (string \<times> json) list list" where
  "payloads et [] = []"
| "payloads et (Publish et' p # fx) = (if et' = et then p # payloads et fx else payloads et fx)"
| "payloads et (Log l m # fx) = payloads et fx"

definition SENTIMENT_ESCALATION_LABELS :: "string list" where
  "SENTIMENT_ESCALATION_LABELS = [''NEGATIVE'', ''ANGRY'']"

text \<open>
  The source writes \<open>0.7\<close>: the double nearest to 7/10, which is this rational. Confidences
  are doubles too, and \<open><\<close> on finite doubles is \<open><\<close> on the rationals they denote (NaN
  and the infinities are not confidences of the model).
\<close>

definition INTENT_CONFIDENCE_THRESHOLD :: rat where
  "INTENT_CONFIDENCE_THRESHOLD = 3152519739159347 / 4503599627370496"

definition INTENT_ROUTING :: "(string \<times> string) list" where
  "INTENT_ROUTING =
     [(''track_order'', ''TASK_HANDLE_ORDER_TRACKING''),
      (''process_return'', ''TASK_HANDLE_RETURNS''),
      (''general_inquiry'', ''TASK_HANDLE_GENERAL_INQUIRY''),
      (''update_account'', ''TASK_HANDLE_ACCOUNT'')]"

record CoordinatorAgent =
  store :: ContextStore
  messages_processed :: int
  escalations :: int
  successful_routes :: int
  co_errors :: int

definition CoordinatorAgent_init :: "ContextStore \<Rightarrow> CoordinatorAgent" where
  "CoordinatorAgent_init st =
     \<lparr>store = st, messages_processed = 0, escalations = 0, successful_routes = 0,
      co_errors = 0\<rparr>"

text \<open>
  The payloads of the events the coordinator handles, with the keys of the handlers'
  docstrings. Every key may be absent: reading an absent required key raises KeyError
  inside the handler's \<open>try\<close>.
\<close>

record new_message_payload =
  nm_session_id :: "string option"
  nm_text :: "string option"
  nm_customer_email :: "string option"

record sentiment_payload =
  sr_session_id :: "string option"
  sr_sentiment :: "string option"
  sr_confidence :: "rat option"

record intent_payload =
  ir_session_id :: "string option"
  ir_intent :: "string option"
  ir_confidence :: "rat option"
  ir_entities :: "(string \<times> json) list option"

text \<open>\<open>_escalate\<close>\<close>

definition coordinator_escalate ::
  "string \<Rightarrow> string \<Rightarrow> (string \<times> json) list \<Rightarrow> CoordinatorAgent
     \<Rightarrow> CoordinatorAgent \<times> effect list" where
  "coordinator_escalate sid reason details co =
     (let co1 = co\<lparr>escalations := escalations co + 1\<rparr>;
          warning = Log WARNING (''[ESCALATION] Escalating session '' @ sid @ '': '' @ reason)
      in case get sid (store co1) of
           None \<Rightarrow>
             (co1,
              [warning,
               Publish ''TASK_ESCALATE''
                 [(''session_id'', JStr sid), (''reason'', JStr reason),
                  (''details'', JDict details), (''context'', JNull)]])
         | Some context \<Rightarrow>
             let c1 = escalate reason context
             in (co1\<lparr>store := mutate sid c1 (store co1)\<rparr>,
                 [warning,
                  Publish ''TASK_ESCALATE''
                    [(''session_id'', JStr sid), (''reason'', JStr reason),
                     (''details'', JDict details), (''context'', JDict (to_dict c1))]]))"

text \<open>\<open>_emergency_escalate\<close>: \<open>if session_id:\<close> fails on None and on the empty string.\<close>

definition emergency_escalate ::
  "string option \<Rightarrow> string \<Rightarrow> CoordinatorAgent \<Rightarrow> CoordinatorAgent \<times> effect list" where
  "emergency_escalate sid_opt err co =
     (case sid_opt of
        None \<Rightarrow> (co, [Log CRITICAL (''Emergency escalation without session_id: '' @ err)])
      | Some sid \<Rightarrow>
          if sid = []
          then (co, [Log CRITICAL (''Emergency escalation without session_id: '' @ err)])
          else coordinator_escalate sid ''SYSTEM_ERROR'' [(''error'', JStr err)] co)"

text \<open>The \<open>except Exception\<close> clause the three gate handlers share but for the tag of the line.\<close>

definition gate_except ::
  "string \<Rightarrow> string option \<Rightarrow> exn \<Rightarrow> CoordinatorAgent \<Rightarrow> CoordinatorAgent \<times> effect list" where
  "gate_except line sid_opt e co =
     (case emergency_escalate sid_opt (str_exn e) (co\<lparr>co_errors := co_errors co + 1\<rparr>) of
        (co1, fx) \<Rightarrow> (co1, Log ERROR (line @ str_exn e) # fx))"

text \<open>
  Gate 0. \<open>create_session\<close> and \<open>add_message\<close> read the clock one after the other:
  \<open>now1\<close> and \<open>now2\<close>.
\<close>

definition handle_new_message ::
  "new_message_payload \<Rightarrow> datetime \<Rightarrow> datetime \<Rightarrow> CoordinatorAgent
     \<Rightarrow> CoordinatorAgent \<times> effect list" where
  "handle_new_message p now1 now2 co =
     (case nm_session_id p of
        None \<Rightarrow>
          gate_except ''[GATE 0] Error handling new message: '' (nm_session_id p)
            (KeyError ''session_id'') co
      | Some sid \<Rightarrow>
          (case nm_text p of
             None \<Rightarrow>
               gate_except ''[GATE 0] Error handling new message: '' (nm_session_id p)
                 (KeyError ''text'') co
           | Some txt \<Rightarrow>
               let co1 = co\<lparr>messages_processed := messages_processed co + 1\<rparr>
               in case get_or_create sid (nm_customer_email p) now1 (store co1) of
                    (Inl e, st1) \<Rightarrow>
                      gate_except ''[GATE 0] Error handling new message: '' (nm_session_id p) e
                        (co1\<lparr>store := st1\<rparr>)
                  | (Inr context, st1) \<Rightarrow>
                      (case store_add_message sid ''USER'' txt no_kwargs now2 st1 of
                         (m, st2, lines) \<Rightarrow>
                           (co1\<lparr>store := st2\<rparr>,
                            map (\<lambda>l. Log (fst l) (snd l)) lines
                            @ [Publish ''TASK_RECOGNIZE_SENTIMENT''
                                 [(''session_id'', JStr sid), (''text'', JStr txt)]]))))"

text \<open>Gate 1.\<close>

definition handle_sentiment_result ::
  "sentiment_payload \<Rightarrow> CoordinatorAgent \<Rightarrow> CoordinatorAgent \<times> effect list" where
  "handle_sentiment_result p co =
     (case sr_session_id p of
        None \<Rightarrow>
          gate_except ''[GATE 1] Error handling sentiment result: '' (sr_session_id p)
            (KeyError ''session_id'') co
      | Some sid \<Rightarrow>
          (case sr_sentiment p of
             None \<Rightarrow>
               gate_except ''[GATE 1] Error handling sentiment result: '' (sr_session_id p)
                 (KeyError ''sentiment'') co
           | Some sentiment \<Rightarrow>
               let confidence = (case sr_confidence p of None \<Rightarrow> 0 | Some x \<Rightarrow> x)
               in case get sid (store co) of
                    None \<Rightarrow>
                      (co, [Log ERROR (''[GATE 1] Session '' @ sid @ '' not found in context store'')])
                  | Some context \<Rightarrow>
                      let c1 = update_sentiment sentiment (Some confidence) context;
                          co1 = co\<lparr>store := mutate sid c1 (store co)\<rparr>
                      in if sentiment \<in> set SENTIMENT_ESCALATION_LABELS
                         then
                           (case coordinator_escalate sid (''NEGATIVE_SENTIMENT_'' @ sentiment)
                                   [(''sentiment'', JStr sentiment),
                                    (''confidence'', JFloat confidence)] co1 of
                              (co2, fx) \<Rightarrow>
                                (co2,
                                 Log WARNING (''[GATE 1] Negative sentiment detected: '' @ sentiment)
                                 # fx))
                         else
                           let last_message =
                                 (if messages c1 = [] then [] else msg_text (last (messages c1)))
                           in (co1,
                               [Publish ''TASK_RECOGNIZE_INTENT''
                                  [(''session_id'', JStr sid), (''text'', JStr last_message),
                                   (''conversation_history'',
                                      JList (map JStr (get_user_message_history c1)))]])))"

text \<open>\<open>_route_to_agent\<close>\<close>

definition route_to_agent ::
  "string \<Rightarrow> string \<Rightarrow> ConversationContext \<Rightarrow> CoordinatorAgent
     \<Rightarrow> CoordinatorAgent \<times> effect list" where
  "route_to_agent sid intent context co =
     (case map_of INTENT_ROUTING intent of
        None \<Rightarrow>
          (case coordinator_escalate sid ''UNKNOWN_INTENT'' [(''intent'', JStr intent)] co of
             (co1, fx) \<Rightarrow> (co1, Log WARNING (''[ROUTING] Unknown intent: '' @ intent) # fx))
      | Some task_name \<Rightarrow>
          (co\<lparr>successful_routes := successful_routes co + 1\<rparr>,
           [Publish task_name (to_dict context)]))"

text \<open>Gate 2. \<open>if entities:\<close> fails on the empty dictionary.\<close>

definition handle_intent_result ::
  "intent_payload \<Rightarrow> CoordinatorAgent \<Rightarrow> CoordinatorAgent \<times> effect list" where
  "handle_intent_result p co =
     (case ir_session_id p of
        None \<Rightarrow>
          gate_except ''[GATE 2] Error handling intent result: '' (ir_session_id p)
            (KeyError ''session_id'') co
      | Some sid \<Rightarrow>
          (case ir_intent p of
             None \<Rightarrow>
               gate_except ''[GATE 2] Error handling intent result: '' (ir_session_id p)
                 (KeyError ''intent'') co
           | Some intent \<Rightarrow>
               (case ir_confidence p of
                  None \<Rightarrow>
                    gate_except ''[GATE 2] Error handling intent result: '' (ir_session_id p)
                      (KeyError ''confidence'') co
                | Some confidence \<Rightarrow>
                    let ents = (case ir_entities p of None \<Rightarrow> [] | Some d \<Rightarrow> d)
                    in case get sid (store co) of
                         None \<Rightarrow>
                           (co,
                            [Log ERROR (''[GATE 2] Session '' @ sid @ '' not found in context store'')])
                       | Some context \<Rightarrow>
                           let c1 = update_intent intent confidence context;
                               c2 = (if ents \<noteq> [] then merge_entities ents c1 else c1);
                               co1 = co\<lparr>store := mutate sid c2 (store co)\<rparr>
                           in if confidence < INTENT_CONFIDENCE_THRESHOLD
                              then
                                (case coordinator_escalate sid ''LOW_INTENT_CONFIDENCE''
                                        [(''intent'', JStr intent),
                                         (''confidence'', JFloat confidence)] co1 of
                                   (co2, fx) \<Rightarrow>
                                     (co2, Log WARNING ''[GATE 2] Low confidence'' # fx))
                              else route_to_agent sid intent c2 co1)))"

section \<open>agents/escalation\_agent.py\<close>

text \<open>
  An escalation record is a dictionary that the queue and the map of active escalations
  both hold by reference, and \<open>assign_to_operator\<close> changes it in place: the records live
  in a heap, addressed by their index, and the queue and the map hold addresses. A record
  is never freed and an address comes from an allocation only, so the addresses the agent
  holds are in range in every state it reaches.
\<close>

record escalation =
  e_session_id :: string
  e_reason :: string
  e_details :: json
  e_context :: json
  e_priority :: string
  escalated_at :: datetime
  e_status :: string
  e_operator_id :: "string option"
  assigned_at :: "datetime option"
  queue_position :: int

record EscalationAgent =
  heap :: "escalation list"
  queue :: "nat list"
  active_escalations :: "string \<rightharpoonup> nat"
  total_escalations :: int
  queued :: int
  assigned :: int
  resolved :: int
  by_reason :: "string \<rightharpoonup> int"

definition EscalationAgent_init :: EscalationAgent where
  "EscalationAgent_init =
     \<lparr>heap = [], queue = [], active_escalations = Map.empty, total_escalations = 0,
      queued = 0, assigned = 0, resolved = 0, by_reason = Map.empty\<rparr>"

record escalate_payload =
  te_session_id :: "string option"
  te_reason :: "string option"
  te_details :: "json option"
  te_context :: "json option"
  te_priority :: "string option"

record operator_payload =
  oa_operator_id :: "string option"
  oa_operator_name :: "string option"

record resolution_payload =
  rs_session_id :: "string option"
  rs_operator_id :: "string option"
  rs_resolution_notes :: "json option"

text \<open>\<open>_estimate_wait_time\<close>\<close>

definition estimate_wait_time :: "EscalationAgent \<Rightarrow> int" where
  "estimate_wait_time ag = int (length (queue ag)) * 300"

text \<open>\<open>int(delta.total_seconds())\<close>: whole seconds, rounded towards zero.\<close>

definition whole_seconds :: "int \<Rightarrow> int" where
  "whole_seconds d = (if 0 \<le> d then d div 1000000 else - ((- d) div 1000000))"

text \<open>\<open>_calculate_wait_time\<close>\<close>

definition calculate_wait_time :: "escalation \<Rightarrow> int" where
  "calculate_wait_time e =
     (case assigned_at e of
        None \<Rightarrow> 0
      | Some a \<Rightarrow> whole_seconds (a - escalated_at e))"

text \<open>\<open>_calculate_total_time\<close>\<close>

definition calculate_total_time :: "escalation \<Rightarrow> datetime \<Rightarrow> int" where
  "calculate_total_time e now = whole_seconds (now - escalated_at e)"

definition handle_escalation ::
  "escalate_payload \<Rightarrow> datetime \<Rightarrow> EscalationAgent \<Rightarrow> EscalationAgent \<times> effect list" where
  "handle_escalation p now ag =
     (case te_session_id p of
        None \<Rightarrow>
          (ag, [Log ERROR (''[Escalation Agent] Error handling escalation: ''
                           @ str_exn (KeyError ''session_id''))])
      | Some sid \<Rightarrow>
          (case te_reason p of
             None \<Rightarrow>
               (ag, [Log ERROR (''[Escalation Agent] Error handling escalation: ''
                                @ str_exn (KeyError ''reason''))])
           | Some reason \<Rightarrow>
               let details = (case te_details p of None \<Rightarrow> JDict [] | Some d \<Rightarrow> d);
                   context = (case te_context p of None \<Rightarrow> JNull | Some c \<Rightarrow> c);
                   priority = (case te_priority p of None \<Rightarrow> ''NORMAL'' | Some q \<Rightarrow> q);
                   escalation =
                     \<lparr>e_session_id = sid, e_reason = reason, e_details = details,
                      e_context = context, e_priority = priority, escalated_at = now,
                      e_status = ''QUEUED'', e_operator_id = None, assigned_at = None,
                      queue_position = int (length (queue ag)) + 1\<rparr>;
                   r = length (heap ag);
                   ag1 =
                     ag\<lparr>heap := heap ag @ [escalation],
                        queue := (if priority = ''HIGH'' then r # queue ag else queue ag @ [r]),
                        active_escalations := (active_escalations ag)(sid \<mapsto> r),
                        total_escalations := total_escalations ag + 1,
                        queued := queued ag + 1,
                        by_reason :=
                          (by_reason ag)
                            (reason \<mapsto> (case by_reason ag reason of None \<Rightarrow> 0 | Some n \<Rightarrow> n) + 1)\<rparr>
               in (ag1,
                   [Log WARNING (''[Escalation Agent] Escalating session '' @ sid),
                    Publish ''RESULT_ESCALATION_COMPLETE''
                      [(''session_id'', JStr sid), (''status'', JStr ''QUEUED''),
                       (''queue_position'', JInt (queue_position escalation)),
                       (''estimated_wait_time'', JInt (estimate_wait_time ag1))],
                    Publish ''NOTIFICATION_OPERATOR''
                      [(''type'', JStr ''NEW_ESCALATION''), (''session_id'', JStr sid),
                       (''reason'', JStr reason), (''priority'', JStr priority),
                       (''queue_size'', JInt (int (length (queue ag1))))]])))"

definition assign_to_operator ::
  "operator_payload \<Rightarrow> datetime \<Rightarrow> EscalationAgent \<Rightarrow> EscalationAgent \<times> effect list" where
  "assign_to_operator p now ag =
     (case oa_operator_id p of
        None \<Rightarrow>
          (ag, [Log ERROR (''[Escalation Agent] Error assigning to operator: ''
                           @ str_exn (KeyError ''operator_id''))])
      | Some op_id \<Rightarrow>
          let operator_name = (case oa_operator_name p of None \<Rightarrow> op_id | Some n \<Rightarrow> n)
          in case queue ag of
               [] \<Rightarrow>
                 (ag,
                  [Publish ''RESULT_OPERATOR_ASSIGNED''
                     [(''operator_id'', JStr op_id), (''assigned'', JBool False),
                      (''reason'', JStr ''QUEUE_EMPTY'')]])
             | r # rest \<Rightarrow>
                 let escalation =
                       (heap ag ! r)
                         \<lparr>e_status := ''ASSIGNED'', e_operator_id := Some op_id,
                          assigned_at := Some now\<rparr>
                 in (ag\<lparr>heap := (heap ag)[r := escalation],
                        queue := rest,
                        queued := queued ag - 1,
                        assigned := assigned ag + 1\<rparr>,
                     [Publish ''RESULT_OPERATOR_ASSIGNED''
                        [(''operator_id'', JStr op_id), (''operator_name'', JStr operator_name),
                         (''assigned'', JBool True),
                         (''session_id'', JStr (e_session_id escalation)),
                         (''reason'', JStr (e_reason escalation)),
                         (''context'', e_context escalation),
                         (''escalated_at'', JTime (escalated_at escalation)),
                         (''wait_time_seconds'', JInt (calculate_wait_time escalation))]]))"

definition handle_resolution ::
  "resolution_payload \<Rightarrow> datetime \<Rightarrow> EscalationAgent \<Rightarrow> EscalationAgent \<times> effect list" where
  "handle_resolution p now ag =
     (case rs_session_id p of
        None \<Rightarrow>
          (ag, [Log ERROR (''[Escalation Agent] Error handling resolution: ''
                           @ str_exn (KeyError ''session_id''))])
      | Some sid \<Rightarrow>
          (case rs_operator_id p of
             None \<Rightarrow>
               (ag, [Log ERROR (''[Escalation Agent] Error handling resolution: ''
                                @ str_exn (KeyError ''operator_id''))])
           | Some op_id \<Rightarrow>
               (case active_escalations ag sid of
                  None \<Rightarrow>
                    (ag,
                     [Log WARNING (''[Escalation Agent] Session '' @ sid
                                   @ '' not found in active escalations'')])
                | Some r \<Rightarrow>
                    (ag\<lparr>active_escalations := (active_escalations ag)(sid := None),
                        assigned := assigned ag - 1,
                        resolved := resolved ag + 1\<rparr>,
                     [Publish ''RESULT_ESCALATION_RESOLVED''
                        [(''session_id'', JStr sid), (''operator_id'', JStr op_id),
                         (''total_time_seconds'', JInt (calculate_total_time (heap ag ! r) now)),
                         (''resolution_notes'',
                            (case rs_resolution_notes p of None \<Rightarrow> JNull | Some n \<Rightarrow> n))]]))))"

text \<open>
  The subscriptions of \<open>__init__\<close>: the events the agent handles, each with the clock
  reading of its handling, and the agent after a sequence of them with all its effects.
\<close>

datatype agent_event =
    TASK_ESCALATE escalate_payload
  | OPERATOR_AVAILABLE operator_payload
  | ESCALATION_RESOLVED resolution_payload

fun dispatch :: "agent_event \<Rightarrow> datetime \<Rightarrow> EscalationAgent \<Rightarrow> EscalationAgent \<times> effect list" where
  "dispatch (TASK_ESCALATE p) now ag = handle_escalation p now ag"
| "dispatch (OPERATOR_AVAILABLE p) now ag = assign_to_operator p now ag"
| "dispatch (ESCALATION_RESOLVED p) now ag = handle_resolution p now ag"

fun run :: "(agent_event \<times> datetime) list \<Rightarrow> EscalationAgent \<Rightarrow> EscalationAgent \<times> effect list" where
  "run [] ag = (ag, [])"
| "run (e # es) ag =
     (case dispatch (fst e) (snd e) ag of
        (ag1, fx1) \<Rightarrow> (case run es ag1 of (ag2, fx2) \<Rightarrow> (ag2, fx1 @ fx2)))"

section \<open>Scenarios and vocabulary of the properties\<close>




text \<open>
  The context of the demo of context\_store.py: a USER message, then an AGENT message.
\<close>

definition demo_context :: ConversationContext where
  "demo_context =
     foldl apply_context_op (new_ConversationContext ''session-123'' 1 (Some ''user@example.com''))
       [AddMessage ''USER'' ''I need to return my laptop'' no_kwargs 2,
        AddMessage ''AGENT'' ''I can help with that!'' no_kwargs 3]"

text \<open>A registry holding one session.\<close>

definition demo_store :: ContextStore where
  "demo_store = snd (create_session ''s1'' (Some ''user@example.com'') 5 ContextStore_init)"

text \<open>Every context of the registry is filed under its own session id.\<close>

definition filed :: "ContextStore \<Rightarrow> bool" where
  "filed st = (\<forall>k c. contexts st k = Some c \<longrightarrow> session_id c = k)"

text \<open>
  A coordinator that has handled one new message of session s1, and the context the
  registry then holds for s1.
\<close>

definition demo_coordinator :: CoordinatorAgent where
  "demo_coordinator =
     fst (handle_new_message
            \<lparr>nm_session_id = Some ''s1'', nm_text = Some ''I want to return my laptop'',
             nm_customer_email = Some ''user@example.com''\<rparr> 5 6
            (CoordinatorAgent_init ContextStore_init))"

definition demo_s1 :: ConversationContext where
  "demo_s1 =
     \<lparr>session_id = ''s1'', start_time = 5, customer_email = Some ''user@example.com'',
      customer_id = None, status = ''ACTIVE'', current_sentiment = None, current_intent = None,
      intent_confidence = None,
      messages =
        [\<lparr>sender = ''USER'', msg_text = ''I want to return my laptop'', msg_timestamp = 6,
          intent_label = None, sentiment_label = None, msg_entities = None, agent_action = None\<rparr>],
      entities = [], metadata = [], escalation_reason = None, operator_id = None\<rparr>"

text \<open>
  Vocabulary for the escalation agent. A TASK\_ESCALATE payload is well formed when it has
  the two required keys; it is a HIGH one when its priority is the string HIGH. The
  sessions of the RESULT\_OPERATOR\_ASSIGNED events among the effects, in order (None for
  the QUEUE\_EMPTY answer), and the sessions of the records in the queue, front first.
\<close>

definition is_HIGH :: "escalate_payload \<Rightarrow> bool" where
  "is_HIGH p = (te_priority p = Some ''HIGH'')"

definition well_formed :: "escalate_payload \<Rightarrow> bool" where
  "well_formed p = (te_session_id p \<noteq> None \<and> te_reason p \<noteq> None)"

fun json_str :: "json \<Rightarrow> string option" where
  "json_str (JStr s) = Some s"
| "json_str _ = None"

definition assigned_sessions :: "effect list \<Rightarrow> string option list" where
  "assigned_sessions fx =
     map (\<lambda>q. Option.bind (map_of q ''session_id'') json_str)
       (payloads ''RESULT_OPERATOR_ASSIGNED'' fx)"

definition queue_sessions :: "EscalationAgent \<Rightarrow> string list" where
  "queue_sessions ag = map (\<lambda>r. e_session_id (heap ag ! r)) (queue ag)"

definition escalations_of :: "(escalate_payload \<times> datetime) list \<Rightarrow> (agent_event \<times> datetime) list" where
  "escalations_of ps = map (\<lambda>pt. (TASK_ESCALATE (fst pt), snd pt)) ps"

definition operators_of :: "(operator_payload \<times> datetime) list \<Rightarrow> (agent_event \<times> datetime) list" where
  "operators_of os = map (\<lambda>ot. (OPERATOR_AVAILABLE (fst ot), snd ot)) os"

definition queue_ok :: "EscalationAgent \<Rightarrow> bool" where
  "queue_ok ag =
     (distinct (queue ag)
      \<and> list_all (\<lambda>r. r < length (heap ag) \<and> e_status (heap ag ! r) = ''QUEUED'') (queue ag))"

text \<open>Every session in the map of active escalations maps to a record of that session.\<close>

definition active_ok :: "EscalationAgent \<Rightarrow> bool" where
  "active_ok ag =
     (\<forall>sid r. active_escalations ag sid = Some r
        \<longrightarrow> r < length (heap ag) \<and> e_session_id (heap ag ! r) = sid)"

text \<open>Payloads for the scenarios, and the agent after one escalation request for session s1.\<close>

definition demo_escalation :: "string \<Rightarrow> string option \<Rightarrow> escalate_payload" where
  "demo_escalation sid priority =
     \<lparr>te_session_id = Some sid, te_reason = Some ''LOW_INTENT_CONFIDENCE'', te_details = None,
      te_context = None, te_priority = priority\<rparr>"

definition demo_operator :: "string \<Rightarrow> operator_payload" where
  "demo_operator op_id = \<lparr>oa_operator_id = Some op_id, oa_operator_name = None\<rparr>"

definition demo_resolution :: "string \<Rightarrow> string \<Rightarrow> resolution_payload" where
  "demo_resolution sid op_id =
     \<lparr>rs_session_id = Some sid, rs_operator_id = Some op_id, rs_resolution_notes = None\<rparr>"

definition one_queued :: EscalationAgent where
  "one_queued = fst (run [(TASK_ESCALATE (demo_escalation ''s1'' None), 1)] EscalationAgent_init)"

section \<open>Properties of the event bus\<close>











section \<open>Properties of the session registry\<close>

lemma filed_init: "filed ContextStore_init"
  by (simp add: filed_def ContextStore_init_def)

lemma filed_step: "filed st \<Longrightarrow> filed (apply_store_op st op)"
proof (cases op)
  case (CreateSession sid email now)
  assume "filed st"
  then show ?thesis using CreateSession
    by (auto simp add: filed_def create_session_def Let_def new_ConversationContext_def)
next
  case (Get sid)
  assume "filed st"
  then show ?thesis using Get by simp
next
  case (GetOrCreate sid email now)
  assume "filed st"
  then show ?thesis using GetOrCreate
    by (auto simp add: filed_def get_or_create_def get_def create_session_def Let_def
        new_ConversationContext_def split: option.splits)
next
  case (StoreAddMessage sid sndr body kw now)
  assume "filed st"
  then show ?thesis using StoreAddMessage
    by (auto simp add: filed_def store_add_message_def add_message_def Let_def split: option.splits)
next
  case (Delete sid)
  assume "filed st"
  then show ?thesis using Delete
    by (auto simp add: filed_def delete_def split: option.splits)
qed

lemma filed_run: "filed st \<Longrightarrow> filed (foldl apply_store_op st ops)"
  by (induction ops arbitrary: st) (simp_all add: filed_step)

text \<open>
  C7. \<open>create_session\<close> with a session id the registry holds returns the ValueError
  ``Session ... already exists'' and leaves the registry as it was, counters included, so
  the context held under that id is neither replaced nor changed; \<open>get_or_create\<close> returns
  the held context and leaves the registry as it was. After any sequence of create, get,
  get-or-create, add-message and delete calls on an empty registry, every context is held
  under its own session id: two held contexts with the same session id are the same
  context under the same key.
\<close>

theorem create_session_never_overwrites:
  "(contexts st sid = Some c \<longrightarrow>
      create_session sid email now st
        = (Inl (ValueError (''Session '' @ sid @ '' already exists'')), st)
      \<and> get_or_create sid email now st = (Inr c, st))
   \<and> (\<forall>k k' c c'.
         contexts (foldl apply_store_op ContextStore_init ops) k = Some c
         \<and> contexts (foldl apply_store_op ContextStore_init ops) k' = Some c'
         \<and> session_id c = session_id c'
         \<longrightarrow> k = k' \<and> c = c' \<and> session_id c = k)"
proof -
  have a: "contexts st sid = Some c \<longrightarrow>
      create_session sid email now st
        = (Inl (ValueError (''Session '' @ sid @ '' already exists'')), st)
      \<and> get_or_create sid email now st = (Inr c, st)"
    by (auto simp add: create_session_def get_or_create_def get_def)
  have "filed (foldl apply_store_op ContextStore_init ops)"
    by (rule filed_run[OF filed_init])
  then have b: "\<forall>k k' c c'.
         contexts (foldl apply_store_op ContextStore_init ops) k = Some c
         \<and> contexts (foldl apply_store_op ContextStore_init ops) k' = Some c'
         \<and> session_id c = session_id c'
         \<longrightarrow> k = k' \<and> c = c' \<and> session_id c = k"
    unfolding filed_def by (metis option.inject)
  from a b show ?thesis by blast
qed

theorem create_session_never_overwrites_witness:
  "contexts demo_store ''s1'' = Some (new_ConversationContext ''s1'' 5 (Some ''user@example.com''))
   \<and> create_session ''s1'' None 9 demo_store
       = (Inl (ValueError ''Session s1 already exists''), demo_store)
   \<and> get_or_create ''s1'' None 9 demo_store
       = (Inr (new_ConversationContext ''s1'' 5 (Some ''user@example.com'')), demo_store)
   \<and> contexts (foldl apply_store_op ContextStore_init
         [CreateSession ''s1'' (Some ''user@example.com'') 5, CreateSession ''s1'' None 9]) ''s1''
       = Some (new_ConversationContext ''s1'' 5 (Some ''user@example.com''))"
proof -
  have c: "contexts demo_store ''s1'' = Some (new_ConversationContext ''s1'' 5 (Some ''user@example.com''))"
    by (simp add: demo_store_def create_session_def ContextStore_init_def Let_def)
  have d: "contexts (foldl apply_store_op ContextStore_init
         [CreateSession ''s1'' (Some ''user@example.com'') 5, CreateSession ''s1'' None 9]) ''s1''
       = Some (new_ConversationContext ''s1'' 5 (Some ''user@example.com''))"
    by (simp add: create_session_def ContextStore_init_def Let_def)
  show ?thesis
    using create_session_never_overwrites[where st = demo_store and sid = "''s1''"
        and c = "new_ConversationContext ''s1'' 5 (Some ''user@example.com'')"
        and email = None and now = 9 and ops = "[]"] c d
    by simp
qed

section \<open>Properties of a conversation context\<close>


lemma butlast_update_last: "butlast (update_last f xs) = butlast xs"
  by (simp add: update_last_def)

lemma length_update_last: "length (update_last f xs) = length xs"
  by (cases "xs = []") (simp_all add: update_last_def)

lemma last_update_last: "xs \<noteq> [] \<Longrightarrow> last (update_last f xs) = f (last xs)"
  by (simp add: update_last_def)





lemma demo_context_messages:
  "messages demo_context =
     [\<lparr>sender = ''USER'', msg_text = ''I need to return my laptop'', msg_timestamp = 2,
       intent_label = None, sentiment_label = None, msg_entities = None, agent_action = None\<rparr>,
      \<lparr>sender = ''AGENT'', msg_text = ''I can help with that!'', msg_timestamp = 3,
       intent_label = None, sentiment_label = None, msg_entities = None, agent_action = None\<rparr>]"
  by (simp add: demo_context_def new_ConversationContext_def add_message_def Let_def no_kwargs_def)




text \<open>
  Which message the three operations write to: the last one of the sequence, whoever sent
  it (the transcript recorder of the repository walks back to the most recent USER message
  instead). On the demo of context\_store.py the last message is the AGENT's, and it gets
  the labels and the entities, while the USER message that was classified gets none.
\<close>

lemma attach_to_last_message:
  "messages c \<noteq> [] \<Longrightarrow>
     last (messages (update_sentiment s conf c)) = (last (messages c))\<lparr>sentiment_label := Some s\<rparr>
     \<and> last (messages (update_intent i conf' c)) = (last (messages c))\<lparr>intent_label := Some i\<rparr>
     \<and> butlast (messages (update_sentiment s conf c)) = butlast (messages c)
     \<and> butlast (messages (update_intent i conf' c)) = butlast (messages c)
     \<and> butlast (messages (merge_entities e c)) = butlast (messages c)"
  by (simp add: update_sentiment_def update_intent_def merge_entities_def last_update_last
      butlast_update_last)

lemma labels_on_agent_message:
  "map sender (messages demo_context) = [''USER'', ''AGENT'']
   \<and> map sentiment_label
        (messages (update_sentiment ''NEUTRAL'' (Some (17 / 20)) demo_context))
       = [None, Some ''NEUTRAL'']
   \<and> map intent_label
        (messages (update_intent ''process_return'' (19 / 20) demo_context))
       = [None, Some ''process_return'']
   \<and> map msg_entities
        (messages (merge_entities [(''product'', JStr ''laptop'')] demo_context))
       = [None, Some [(''product'', JStr ''laptop'')]]"
  by (simp add: demo_context_messages update_sentiment_def update_intent_def merge_entities_def
      update_last_def dict_update_def)

section \<open>Properties of the coordinator\<close>

lemma demo_coordinator_s1: "get ''s1'' (store demo_coordinator) = Some demo_s1"
  by (simp add: demo_coordinator_def handle_new_message_def CoordinatorAgent_init_def
      ContextStore_init_def get_or_create_def get_def create_session_def Let_def
      store_add_message_def add_message_def new_ConversationContext_def no_kwargs_def demo_s1_def)

lemma published_coordinator_escalate:
  "published (snd (coordinator_escalate sid reason details co)) = [''TASK_ESCALATE'']"
  by (simp add: coordinator_escalate_def Let_def split: option.splits)

lemma reasons_coordinator_escalate:
  "map (\<lambda>q. map_of q ''reason'') (payloads ''TASK_ESCALATE'' (snd (coordinator_escalate sid reason details co)))
     = [Some (JStr reason)]"
  by (simp add: coordinator_escalate_def Let_def split: option.splits)

lemma payloads_other_coordinator_escalate:
  "et \<noteq> ''TASK_ESCALATE'' \<Longrightarrow> payloads et (snd (coordinator_escalate sid reason details co)) = []"
  by (simp add: coordinator_escalate_def Let_def split: option.splits)

lemma status_coordinator_escalate:
  "get sid (store co) = Some c \<Longrightarrow>
   get sid (store (fst (coordinator_escalate sid reason details co))) = Some (escalate reason c)"
  by (simp add: coordinator_escalate_def Let_def get_def mutate_def split: option.splits)

lemma ANGRY_escalates: "''ANGRY'' \<in> set SENTIMENT_ESCALATION_LABELS"
  by (simp add: SENTIMENT_ESCALATION_LABELS_def)

lemma gate1_held_session:
  assumes p1: "sr_session_id p = Some sid"
    and p2: "sr_sentiment p = Some sentiment"
    and s: "get sid (store co) = Some ctx"
  shows "''ANGRY'' \<in> set SENTIMENT_ESCALATION_LABELS
    \<and> published (snd (handle_sentiment_result p co))
        = (if sentiment \<in> set SENTIMENT_ESCALATION_LABELS
           then [''TASK_ESCALATE''] else [''TASK_RECOGNIZE_INTENT''])
    \<and> map (\<lambda>q. map_of q ''reason'')
          (payloads ''TASK_ESCALATE'' (snd (handle_sentiment_result p co)))
        = (if sentiment \<in> set SENTIMENT_ESCALATION_LABELS
           then [Some (JStr (''NEGATIVE_SENTIMENT_'' @ sentiment))] else [])
    \<and> map (\<lambda>q. map_of q ''session_id'')
          (payloads ''TASK_RECOGNIZE_INTENT'' (snd (handle_sentiment_result p co)))
        = (if sentiment \<in> set SENTIMENT_ESCALATION_LABELS then [] else [Some (JStr sid)])
    \<and> map_option status (get sid (store (fst (handle_sentiment_result p co))))
        = (if sentiment \<in> set SENTIMENT_ESCALATION_LABELS
           then Some ''ESCALATED'' else Some (status ctx))"
proof (cases "sentiment \<in> set SENTIMENT_ESCALATION_LABELS")
  case True
  let ?conf = "case sr_confidence p of None \<Rightarrow> 0 | Some x \<Rightarrow> x"
  let ?c1 = "update_sentiment sentiment (Some ?conf) ctx"
  let ?co1 = "co\<lparr>store := mutate sid ?c1 (store co)\<rparr>"
  let ?e = "coordinator_escalate sid (''NEGATIVE_SENTIMENT_'' @ sentiment)
              [(''sentiment'', JStr sentiment), (''confidence'', JFloat ?conf)] ?co1"
  have h: "handle_sentiment_result p co
      = (fst ?e, Log WARNING (''[GATE 1] Negative sentiment detected: '' @ sentiment) # snd ?e)"
    using p1 p2 s True by (simp add: handle_sentiment_result_def Let_def split: prod.splits)
  have g: "get sid (store ?co1) = Some ?c1"
    by (simp add: get_def mutate_def)
  show ?thesis
    using True ANGRY_escalates
    by (simp add: h published_coordinator_escalate reasons_coordinator_escalate
        payloads_other_coordinator_escalate status_coordinator_escalate[OF g] escalate_def)
next
  case False
  then show ?thesis
    using p1 p2 s ANGRY_escalates
    by (simp add: handle_sentiment_result_def Let_def get_def mutate_def update_sentiment_def)
qed

text \<open>
  C8, as amended. For a sentiment-result event that names a session the registry holds:
  when the label is in the escalation label set (ANGRY is), the handler publishes exactly
  one event, a TASK\_ESCALATE with reason NEGATIVE\_SENTIMENT\_ followed by the label, no
  intent task, and the session's status becomes ESCALATED; when the label is outside the
  set, it publishes exactly one event, the TASK\_RECOGNIZE\_INTENT for that session, no
  escalation, and the status stays as it was. For a session the registry does not hold
  (coordinator \<open>other\<close>), whatever the label, the handler leaves the coordinator as it was,
  logs that the session was not found and publishes nothing.
\<close>

theorem gate1_sentiment:
  assumes p1: "sr_session_id p = Some sid"
    and p2: "sr_sentiment p = Some sentiment"
    and s: "get sid (store co) = Some ctx"
  shows "''ANGRY'' \<in> set SENTIMENT_ESCALATION_LABELS
    \<and> published (snd (handle_sentiment_result p co))
        = (if sentiment \<in> set SENTIMENT_ESCALATION_LABELS
           then [''TASK_ESCALATE''] else [''TASK_RECOGNIZE_INTENT''])
    \<and> map (\<lambda>q. map_of q ''reason'')
          (payloads ''TASK_ESCALATE'' (snd (handle_sentiment_result p co)))
        = (if sentiment \<in> set SENTIMENT_ESCALATION_LABELS
           then [Some (JStr (''NEGATIVE_SENTIMENT_'' @ sentiment))] else [])
    \<and> map (\<lambda>q. map_of q ''session_id'')
          (payloads ''TASK_RECOGNIZE_INTENT'' (snd (handle_sentiment_result p co)))
        = (if sentiment \<in> set SENTIMENT_ESCALATION_LABELS then [] else [Some (JStr sid)])
    \<and> map_option status (get sid (store (fst (handle_sentiment_result p co))))
        = (if sentiment \<in> set SENTIMENT_ESCALATION_LABELS
           then Some ''ESCALATED'' else Some (status ctx))
    \<and> (get sid (store other) = None \<longrightarrow>
          handle_sentiment_result p other
            = (other, [Log ERROR (''[GATE 1] Session '' @ sid @ '' not found in context store'')])
          \<and> published (snd (handle_sentiment_result p other)) = [])"
proof -
  have u: "get sid (store other) = None \<longrightarrow>
          handle_sentiment_result p other
            = (other, [Log ERROR (''[GATE 1] Session '' @ sid @ '' not found in context store'')])
          \<and> published (snd (handle_sentiment_result p other)) = []"
    using p1 p2 by (simp add: handle_sentiment_result_def)
  from gate1_held_session[OF p1 p2 s] u show ?thesis
    by blast
qed

theorem gate1_sentiment_witness:
  "published (snd (handle_sentiment_result
       \<lparr>sr_session_id = Some ''s1'', sr_sentiment = Some ''ANGRY'', sr_confidence = Some (19 / 20)\<rparr>
       demo_coordinator)) = [''TASK_ESCALATE'']
   \<and> map (\<lambda>q. map_of q ''reason'')
        (payloads ''TASK_ESCALATE'' (snd (handle_sentiment_result
           \<lparr>sr_session_id = Some ''s1'', sr_sentiment = Some ''ANGRY'', sr_confidence = Some (19 / 20)\<rparr>
           demo_coordinator)))
       = [Some (JStr ''NEGATIVE_SENTIMENT_ANGRY'')]
   \<and> published (snd (handle_sentiment_result
       \<lparr>sr_session_id = Some ''s1'', sr_sentiment = Some ''NEUTRAL'', sr_confidence = Some (9 / 10)\<rparr>
       demo_coordinator)) = [''TASK_RECOGNIZE_INTENT'']
   \<and> published (snd (handle_sentiment_result
       \<lparr>sr_session_id = Some ''s1'', sr_sentiment = Some ''ANGRY'', sr_confidence = Some (19 / 20)\<rparr>
       (CoordinatorAgent_init ContextStore_init))) = []"
proof -
  have n: "get ''s1'' (store (CoordinatorAgent_init ContextStore_init)) = None"
    by (simp add: get_def CoordinatorAgent_init_def ContextStore_init_def)
  show ?thesis
    using gate1_sentiment[where p = "\<lparr>sr_session_id = Some ''s1'', sr_sentiment = Some ''ANGRY'', sr_confidence = Some (19 / 20)\<rparr>"
        and sid = "''s1''" and sentiment = "''ANGRY''" and co = demo_coordinator and ctx = demo_s1
        and other = "CoordinatorAgent_init ContextStore_init"]
      gate1_sentiment[where p = "\<lparr>sr_session_id = Some ''s1'', sr_sentiment = Some ''NEUTRAL'', sr_confidence = Some (9 / 10)\<rparr>"
        and sid = "''s1''" and sentiment = "''NEUTRAL''" and co = demo_coordinator and ctx = demo_s1
        and other = "CoordinatorAgent_init ContextStore_init"]
      demo_coordinator_s1 n
    by (simp add: SENTIMENT_ESCALATION_LABELS_def)
qed

text \<open>
  The claim as stated (``always'') fails for a session the registry does not hold: the
  handler logs the missing session and returns, and publishes nothing.
\<close>

theorem gate1_unknown_session_counterexample:
  "handle_sentiment_result
     \<lparr>sr_session_id = Some ''s1'', sr_sentiment = Some ''ANGRY'', sr_confidence = Some (19 / 20)\<rparr>
     (CoordinatorAgent_init ContextStore_init)
   = (CoordinatorAgent_init ContextStore_init,
      [Log ERROR ''[GATE 1] Session s1 not found in context store''])"
  by (simp add: handle_sentiment_result_def get_def CoordinatorAgent_init_def ContextStore_init_def)

lemma routed_task_is_not_escalation:
  "map_of INTENT_ROUTING intent = Some task \<Longrightarrow> task \<noteq> ''TASK_ESCALATE''"
  by (auto simp add: INTENT_ROUTING_def split: if_splits)

lemma published_route_to_agent:
  "published (snd (route_to_agent sid intent c co))
     = (case map_of INTENT_ROUTING intent of None \<Rightarrow> [''TASK_ESCALATE''] | Some task \<Rightarrow> [task])"
  by (simp add: route_to_agent_def published_coordinator_escalate case_prod_beta split: option.splits)

lemma reasons_route_to_agent:
  "map (\<lambda>q. map_of q ''reason'') (payloads ''TASK_ESCALATE'' (snd (route_to_agent sid intent c co)))
     = (case map_of INTENT_ROUTING intent of
          None \<Rightarrow> [Some (JStr ''UNKNOWN_INTENT'')] | Some task \<Rightarrow> [])"
proof (cases "map_of INTENT_ROUTING intent")
  case None
  then show ?thesis
    using reasons_coordinator_escalate[of sid "''UNKNOWN_INTENT''" "[(''intent'', JStr intent)]" co]
    by (simp add: route_to_agent_def case_prod_beta)
next
  case (Some task)
  then show ?thesis
    using routed_task_is_not_escalation[OF Some]
    by (simp add: route_to_agent_def)
qed

text \<open>
  C1, as amended. For an intent-result event that reports an intent and a confidence for a
  session the registry holds, the handler publishes exactly one event. Below the threshold
  it is a TASK\_ESCALATE with reason LOW\_INTENT\_CONFIDENCE. At the threshold or above it
  is the routing task of the intent when the routing table knows the intent (no
  escalation), and a TASK\_ESCALATE with reason UNKNOWN\_INTENT when it does not. So the
  handler escalates with reason LOW\_INTENT\_CONFIDENCE exactly when the confidence is
  strictly below the threshold.
\<close>

theorem gate2_confidence:
  assumes p1: "ir_session_id p = Some sid"
    and p2: "ir_intent p = Some intent"
    and p3: "ir_confidence p = Some confidence"
    and s: "get sid (store co) = Some ctx"
  shows "published (snd (handle_intent_result p co))
        = (if confidence < INTENT_CONFIDENCE_THRESHOLD then [''TASK_ESCALATE'']
           else case map_of INTENT_ROUTING intent of
                  None \<Rightarrow> [''TASK_ESCALATE''] | Some task \<Rightarrow> [task])
    \<and> map (\<lambda>q. map_of q ''reason'')
          (payloads ''TASK_ESCALATE'' (snd (handle_intent_result p co)))
        = (if confidence < INTENT_CONFIDENCE_THRESHOLD then [Some (JStr ''LOW_INTENT_CONFIDENCE'')]
           else case map_of INTENT_ROUTING intent of
                  None \<Rightarrow> [Some (JStr ''UNKNOWN_INTENT'')] | Some task \<Rightarrow> [])
    \<and> (Some (JStr ''LOW_INTENT_CONFIDENCE'')
          \<in> set (map (\<lambda>q. map_of q ''reason'')
                    (payloads ''TASK_ESCALATE'' (snd (handle_intent_result p co)))))
        = (confidence < INTENT_CONFIDENCE_THRESHOLD)"
proof -
  let ?ents = "case ir_entities p of None \<Rightarrow> [] | Some d \<Rightarrow> d"
  let ?c1 = "update_intent intent confidence ctx"
  let ?c2 = "if ?ents \<noteq> [] then merge_entities ?ents ?c1 else ?c1"
  let ?co1 = "co\<lparr>store := mutate sid ?c2 (store co)\<rparr>"
  let ?e = "coordinator_escalate sid ''LOW_INTENT_CONFIDENCE''
              [(''intent'', JStr intent), (''confidence'', JFloat confidence)] ?co1"
  show ?thesis
  proof (cases "confidence < INTENT_CONFIDENCE_THRESHOLD")
    case True
    have h: "handle_intent_result p co = (fst ?e, Log WARNING ''[GATE 2] Low confidence'' # snd ?e)"
      using p1 p2 p3 s True by (simp add: handle_intent_result_def Let_def split: prod.splits)
    show ?thesis
      using True
      by (simp add: h published_coordinator_escalate reasons_coordinator_escalate)
  next
    case False
    have h: "handle_intent_result p co = route_to_agent sid intent ?c2 ?co1"
      using p1 p2 p3 s False by (simp add: handle_intent_result_def Let_def)
    show ?thesis
      using False
      by (simp add: h published_route_to_agent reasons_route_to_agent split: option.splits)
  qed
qed

theorem gate2_confidence_witness:
  "published (snd (handle_intent_result
       \<lparr>ir_session_id = Some ''s1'', ir_intent = Some ''process_return'',
        ir_confidence = Some INTENT_CONFIDENCE_THRESHOLD, ir_entities = None\<rparr>
       demo_coordinator)) = [''TASK_HANDLE_RETURNS'']
   \<and> payloads ''TASK_ESCALATE'' (snd (handle_intent_result
       \<lparr>ir_session_id = Some ''s1'', ir_intent = Some ''process_return'',
        ir_confidence = Some INTENT_CONFIDENCE_THRESHOLD, ir_entities = None\<rparr>
       demo_coordinator)) = []
   \<and> published (snd (handle_intent_result
       \<lparr>ir_session_id = Some ''s1'', ir_intent = Some ''process_return'',
        ir_confidence = Some (INTENT_CONFIDENCE_THRESHOLD - 1 / 1000000), ir_entities = None\<rparr>
       demo_coordinator)) = [''TASK_ESCALATE'']
   \<and> map (\<lambda>q. map_of q ''reason'') (payloads ''TASK_ESCALATE'' (snd (handle_intent_result
       \<lparr>ir_session_id = Some ''s1'', ir_intent = Some ''process_return'',
        ir_confidence = Some (INTENT_CONFIDENCE_THRESHOLD - 1 / 1000000), ir_entities = None\<rparr>
       demo_coordinator))) = [Some (JStr ''LOW_INTENT_CONFIDENCE'')]"
  using gate2_confidence[where p = "\<lparr>ir_session_id = Some ''s1'', ir_intent = Some ''process_return'',
        ir_confidence = Some INTENT_CONFIDENCE_THRESHOLD, ir_entities = None\<rparr>"
      and sid = "''s1''" and intent = "''process_return''"
      and confidence = INTENT_CONFIDENCE_THRESHOLD and co = demo_coordinator and ctx = demo_s1]
    gate2_confidence[where p = "\<lparr>ir_session_id = Some ''s1'', ir_intent = Some ''process_return'',
        ir_confidence = Some (INTENT_CONFIDENCE_THRESHOLD - 1 / 1000000), ir_entities = None\<rparr>"
      and sid = "''s1''" and intent = "''process_return''"
      and confidence = "INTENT_CONFIDENCE_THRESHOLD - 1 / 1000000" and co = demo_coordinator
      and ctx = demo_s1]
    demo_coordinator_s1
  by (simp add: INTENT_ROUTING_def)

text \<open>
  The claim as stated fails at the threshold for an intent that is not in the routing
  table: no routing task is published, the session is escalated with reason
  UNKNOWN\_INTENT.
\<close>

theorem gate2_unknown_intent_counterexample:
  "published (snd (handle_intent_result
       \<lparr>ir_session_id = Some ''s1'', ir_intent = Some ''cancel_subscription'',
        ir_confidence = Some INTENT_CONFIDENCE_THRESHOLD, ir_entities = None\<rparr>
       demo_coordinator)) = [''TASK_ESCALATE'']
   \<and> map_of (hd (payloads ''TASK_ESCALATE'' (snd (handle_intent_result
       \<lparr>ir_session_id = Some ''s1'', ir_intent = Some ''cancel_subscription'',
        ir_confidence = Some INTENT_CONFIDENCE_THRESHOLD, ir_entities = None\<rparr>
       demo_coordinator)))) ''reason'' = Some (JStr ''UNKNOWN_INTENT'')"
proof -
  have h: "handle_intent_result
       \<lparr>ir_session_id = Some ''s1'', ir_intent = Some ''cancel_subscription'',
        ir_confidence = Some INTENT_CONFIDENCE_THRESHOLD, ir_entities = None\<rparr>
       demo_coordinator
     = route_to_agent ''s1'' ''cancel_subscription''
         (update_intent ''cancel_subscription'' INTENT_CONFIDENCE_THRESHOLD demo_s1)
         (demo_coordinator\<lparr>store := mutate ''s1''
             (update_intent ''cancel_subscription'' INTENT_CONFIDENCE_THRESHOLD demo_s1)
             (store demo_coordinator)\<rparr>)"
    using demo_coordinator_s1 by (simp add: handle_intent_result_def Let_def)
  have r: "map_of INTENT_ROUTING ''cancel_subscription'' = None"
    by (simp add: INTENT_ROUTING_def)
  show ?thesis
    unfolding h
    by (simp add: route_to_agent_def r coordinator_escalate_def Let_def split: option.splits prod.splits)
qed

section \<open>Properties of the escalation agent\<close>

lemma payloads_append: "payloads et (fx @ gx) = payloads et fx @ payloads et gx"
  by (induction fx rule: payloads.induct) simp_all

lemma published_append: "published (fx @ gx) = published fx @ published gx"
  by (induction fx rule: published.induct) simp_all

lemma assigned_sessions_append:
  "assigned_sessions (fx @ gx) = assigned_sessions fx @ assigned_sessions gx"
  by (simp add: assigned_sessions_def payloads_append)

lemma run_append:
  "run (es @ fs) ag = (case run es ag of (ag1, fx) \<Rightarrow> case run fs ag1 of (ag2, gx) \<Rightarrow> (ag2, fx @ gx))"
  by (induction es arbitrary: ag) (auto split: prod.splits)

text \<open>\<open>handle_escalation\<close> on a well-formed payload.\<close>

lemma handle_escalation_wf:
  assumes "te_session_id p = Some sid" and "te_reason p = Some reason"
  shows "heap (fst (handle_escalation p now ag))
           = heap ag @ [\<lparr>e_session_id = sid, e_reason = reason,
                e_details = (case te_details p of None \<Rightarrow> JDict [] | Some d \<Rightarrow> d),
                e_context = (case te_context p of None \<Rightarrow> JNull | Some c \<Rightarrow> c),
                e_priority = (case te_priority p of None \<Rightarrow> ''NORMAL'' | Some q \<Rightarrow> q),
                escalated_at = now, e_status = ''QUEUED'', e_operator_id = None,
                assigned_at = None, queue_position = int (length (queue ag)) + 1\<rparr>]"
    and "queue (fst (handle_escalation p now ag))
           = (if is_HIGH p then length (heap ag) # queue ag else queue ag @ [length (heap ag)])"
    and "active_escalations (fst (handle_escalation p now ag))
           = (active_escalations ag)(sid \<mapsto> length (heap ag))"
    and "published (snd (handle_escalation p now ag))
           = [''RESULT_ESCALATION_COMPLETE'', ''NOTIFICATION_OPERATOR'']"
  using assms
  by (auto simp add: handle_escalation_def Let_def is_HIGH_def split: option.splits)

lemma handle_escalation_no_assignment:
  "payloads ''RESULT_OPERATOR_ASSIGNED'' (snd (handle_escalation p now ag)) = []"
  by (simp add: handle_escalation_def Let_def split: option.splits)

lemma queue_ok_handle_escalation:
  assumes ok: "queue_ok ag"
  shows "queue_ok (fst (handle_escalation p now ag))"
proof (cases "well_formed p")
  case False
  then show ?thesis using ok
    by (auto simp add: well_formed_def handle_escalation_def split: option.splits)
next
  case True
  then obtain sid reason where s: "te_session_id p = Some sid" and r: "te_reason p = Some reason"
    by (auto simp add: well_formed_def)
  from ok have lt: "\<forall>x \<in> set (queue ag). x < length (heap ag)"
    by (simp add: queue_ok_def list_all_iff)
  then have fresh: "length (heap ag) \<notin> set (queue ag)" by auto
  show ?thesis
    using ok lt fresh
    unfolding queue_ok_def handle_escalation_wf[OF s r]
    by (auto simp add: list_all_iff nth_append)
qed

lemma queue_sessions_handle_escalation:
  assumes ok: "queue_ok ag" and s: "te_session_id p = Some sid" and r: "te_reason p = Some reason"
  shows "queue_sessions (fst (handle_escalation p now ag))
           = (if is_HIGH p then sid # queue_sessions ag else queue_sessions ag @ [sid])"
proof -
  from ok have lt: "\<forall>x \<in> set (queue ag). x < length (heap ag)"
    by (simp add: queue_ok_def list_all_iff)
  show ?thesis
    using lt unfolding queue_sessions_def handle_escalation_wf[OF s r]
    by (simp add: nth_append)
qed

lemma run_escalations:
  assumes "queue_ok ag" and "list_all (\<lambda>pt. well_formed (fst pt)) ps"
  shows "queue_ok (fst (run (escalations_of ps) ag))
    \<and> map Some (queue_sessions (fst (run (escalations_of ps) ag)))
        = map te_session_id (rev (filter is_HIGH (map fst ps)))
          @ map Some (queue_sessions ag)
          @ map te_session_id (filter (\<lambda>p. \<not> is_HIGH p) (map fst ps))
    \<and> assigned_sessions (snd (run (escalations_of ps) ag)) = []"
  using assms
proof (induction ps arbitrary: ag)
  case Nil
  then show ?case by (simp add: escalations_of_def assigned_sessions_def)
next
  case (Cons pt ps)
  let ?ag1 = "fst (handle_escalation (fst pt) (snd pt) ag)"
  have ok1: "queue_ok ?ag1" using Cons.prems(1) by (rule queue_ok_handle_escalation)
  have wf: "well_formed (fst pt)" and wfs: "list_all (\<lambda>pt. well_formed (fst pt)) ps"
    using Cons.prems(2) by simp_all
  note ih = Cons.IH[OF ok1 wfs]
  have r: "run (escalations_of (pt # ps)) ag
        = (fst (run (escalations_of ps) ?ag1),
           snd (handle_escalation (fst pt) (snd pt) ag) @ snd (run (escalations_of ps) ?ag1))"
    by (simp add: escalations_of_def split: prod.splits)
  from wf obtain sid reason where s: "te_session_id (fst pt) = Some sid"
    and re: "te_reason (fst pt) = Some reason"
    by (auto simp add: well_formed_def)
  have q: "map Some (queue_sessions ?ag1)
           = (if is_HIGH (fst pt) then te_session_id (fst pt) # map Some (queue_sessions ag)
              else map Some (queue_sessions ag) @ [te_session_id (fst pt)])"
    by (simp add: queue_sessions_handle_escalation[OF Cons.prems(1) s re] s)
  have a: "assigned_sessions (snd (handle_escalation (fst pt) (snd pt) ag)) = []"
    by (simp add: assigned_sessions_def handle_escalation_no_assignment)
  show ?case
    using ih q a by (simp add: r assigned_sessions_append)
qed

text \<open>\<open>assign_to_operator\<close> on a queue that is not empty.\<close>

lemma assign_to_operator_pop:
  assumes o: "oa_operator_id p = Some op_id" and q: "queue ag = r # rest"
  shows "queue (fst (assign_to_operator p now ag)) = rest"
    and "heap (fst (assign_to_operator p now ag))
           = (heap ag)[r := (heap ag ! r)\<lparr>e_status := ''ASSIGNED'', e_operator_id := Some op_id,
                                         assigned_at := Some now\<rparr>]"
    and "active_escalations (fst (assign_to_operator p now ag)) = active_escalations ag"
    and "assigned_sessions (snd (assign_to_operator p now ag)) = [Some (e_session_id (heap ag ! r))]"
    and "published (snd (assign_to_operator p now ag)) = [''RESULT_OPERATOR_ASSIGNED'']"
  using o q by (simp_all add: assign_to_operator_def Let_def assigned_sessions_def)

lemma queue_ok_assign_to_operator:
  assumes ok: "queue_ok ag"
  shows "queue_ok (fst (assign_to_operator p now ag))"
proof (cases "oa_operator_id p")
  case None
  then show ?thesis using ok by (simp add: assign_to_operator_def)
next
  case (Some op_id)
  show ?thesis
  proof (cases "queue ag")
    case Nil
    then show ?thesis using ok Some by (simp add: assign_to_operator_def Let_def)
  next
    case (Cons r rest)
    from ok Cons have "r \<notin> set rest" and "distinct rest"
      and "\<forall>x \<in> set rest. x < length (heap ag) \<and> e_status (heap ag ! x) = ''QUEUED''"
      by (auto simp add: queue_ok_def list_all_iff)
    moreover from this have "\<forall>x \<in> set rest. r \<noteq> x"
      by auto
    ultimately show ?thesis
      unfolding queue_ok_def assign_to_operator_pop[OF Some Cons]
      by (simp add: list_all_iff nth_list_update_neq)
  qed
qed

lemma queue_sessions_assign_to_operator:
  assumes ok: "queue_ok ag" and o: "oa_operator_id p = Some op_id" and q: "queue ag = r # rest"
  shows "queue_sessions (fst (assign_to_operator p now ag)) = tl (queue_sessions ag)"
    and "assigned_sessions (snd (assign_to_operator p now ag)) = [Some (hd (queue_sessions ag))]"
proof -
  from ok q have "\<forall>x \<in> set rest. x < length (heap ag)" and "r < length (heap ag)"
    by (auto simp add: queue_ok_def list_all_iff)
  then show "queue_sessions (fst (assign_to_operator p now ag)) = tl (queue_sessions ag)"
    unfolding queue_sessions_def assign_to_operator_pop[OF o q]
    by (auto simp add: q nth_list_update)
  show "assigned_sessions (snd (assign_to_operator p now ag)) = [Some (hd (queue_sessions ag))]"
    by (simp add: assign_to_operator_pop[OF o q] queue_sessions_def q)
qed

lemma run_operators:
  assumes "queue_ok ag" and "list_all (\<lambda>ot. oa_operator_id (fst ot) \<noteq> None) os"
    and "length os \<le> length (queue ag)"
  shows "assigned_sessions (snd (run (operators_of os) ag))
           = map Some (take (length os) (queue_sessions ag))"
  using assms
proof (induction os arbitrary: ag)
  case Nil
  then show ?case by (simp add: operators_of_def assigned_sessions_def)
next
  case (Cons ot os)
  from Cons.prems(2) obtain op_id where o: "oa_operator_id (fst ot) = Some op_id"
    and os: "list_all (\<lambda>ot. oa_operator_id (fst ot) \<noteq> None) os"
    by auto
  from Cons.prems(3) obtain r rest where q: "queue ag = r # rest"
    by (cases "queue ag") auto
  let ?ag1 = "fst (assign_to_operator (fst ot) (snd ot) ag)"
  have ok1: "queue_ok ?ag1" using Cons.prems(1) by (rule queue_ok_assign_to_operator)
  have len: "length os \<le> length (queue ?ag1)"
    using Cons.prems(3) by (simp add: assign_to_operator_pop[OF o q] q)
  note ih = Cons.IH[OF ok1 os len]
  have r: "run (operators_of (ot # os)) ag
        = (fst (run (operators_of os) ?ag1),
           snd (assign_to_operator (fst ot) (snd ot) ag) @ snd (run (operators_of os) ?ag1))"
    by (simp add: operators_of_def split: prod.splits)
  have ne: "queue_sessions ag \<noteq> []" by (simp add: queue_sessions_def q)
  show ?case
    using ih ne
    by (simp add: r assigned_sessions_append
        queue_sessions_assign_to_operator[OF Cons.prems(1) o q] take_Suc)
qed

lemma queue_ok_init: "queue_ok EscalationAgent_init"
  by (simp add: queue_ok_def EscalationAgent_init_def)

lemma drain_order:
  assumes wf: "list_all (\<lambda>pt. well_formed (fst pt)) ps"
    and os: "list_all (\<lambda>ot. oa_operator_id (fst ot) \<noteq> None) os"
    and len: "length os = length ps"
  shows "assigned_sessions (snd (run (escalations_of ps @ operators_of os) EscalationAgent_init))
           = map te_session_id
               (rev (filter is_HIGH (map fst ps)) @ filter (\<lambda>p. \<not> is_HIGH p) (map fst ps))"
proof -
  let ?ag1 = "fst (run (escalations_of ps) EscalationAgent_init)"
  note e = run_escalations[OF queue_ok_init wf]
  have qs: "map Some (queue_sessions ?ag1)
      = map te_session_id
               (rev (filter is_HIGH (map fst ps)) @ filter (\<lambda>p. \<not> is_HIGH p) (map fst ps))"
    using e by (simp add: queue_sessions_def EscalationAgent_init_def)
  then have "length (queue_sessions ?ag1) = length ps"
    by (metis length_map length_rev length_append sum_length_filter_compl)
  then have l: "length os \<le> length (queue ?ag1)" and l': "length os = length (queue_sessions ?ag1)"
    using len by (simp_all add: queue_sessions_def)
  have d: "assigned_sessions (snd (run (operators_of os) ?ag1))
           = map Some (take (length os) (queue_sessions ?ag1))"
    using e os l by (intro run_operators) simp_all
  show ?thesis
    using e d qs l' by (simp add: run_append assigned_sessions_append case_prod_beta)
qed

lemma demo_well_formed: "well_formed (demo_escalation sid priority)"
  by (simp add: well_formed_def demo_escalation_def)

lemma demo_is_HIGH: "is_HIGH (demo_escalation sid priority) = (priority = Some ''HIGH'')"
  by (simp add: is_HIGH_def demo_escalation_def)

lemma demo_session: "te_session_id (demo_escalation sid priority) = Some sid"
  by (simp add: demo_escalation_def)

lemma demo_operator_id: "oa_operator_id (demo_operator op_id) = Some op_id"
  by (simp add: demo_operator_def)

text \<open>
  C2, as amended. \<open>handle_escalation\<close> puts the new record at the front of the queue when
  the priority is HIGH and at the back otherwise, and \<open>assign_to_operator\<close> pops the front.
  For every sequence of well-formed escalation requests to a new agent, followed by as
  many operator-available events, the sessions are assigned in this order: first all HIGH
  requests, the most recent first (reverse arrival order), then all other requests in
  arrival order.
\<close>

theorem queue_two_level_order:
  assumes wf: "list_all (\<lambda>pt. well_formed (fst pt)) ps"
    and os: "list_all (\<lambda>ot. oa_operator_id (fst ot) \<noteq> None) os"
    and len: "length os = length ps"
  shows "assigned_sessions (snd (run (escalations_of ps @ operators_of os) EscalationAgent_init))
           = map te_session_id
               (rev (filter is_HIGH (map fst ps)) @ filter (\<lambda>p. \<not> is_HIGH p) (map fst ps))
    \<and> (\<forall>p sid reason now ag.
          te_session_id p = Some sid \<and> te_reason p = Some reason
          \<longrightarrow> queue (fst (handle_escalation p now ag))
                = (if te_priority p = Some ''HIGH'' then length (heap ag) # queue ag
                   else queue ag @ [length (heap ag)]))
    \<and> (\<forall>p op_id now ag r rest.
          oa_operator_id p = Some op_id \<and> queue ag = r # rest
          \<longrightarrow> queue (fst (assign_to_operator p now ag)) = rest
              \<and> assigned_sessions (snd (assign_to_operator p now ag))
                  = [Some (e_session_id (heap ag ! r))])"
proof -
  have a: "assigned_sessions (snd (run (escalations_of ps @ operators_of os) EscalationAgent_init))
           = map te_session_id
               (rev (filter is_HIGH (map fst ps)) @ filter (\<lambda>p. \<not> is_HIGH p) (map fst ps))"
    using wf os len by (rule drain_order)
  have b: "\<forall>p sid reason now ag.
          te_session_id p = Some sid \<and> te_reason p = Some reason
          \<longrightarrow> queue (fst (handle_escalation p now ag))
                = (if te_priority p = Some ''HIGH'' then length (heap ag) # queue ag
                   else queue ag @ [length (heap ag)])"
    by (simp add: handle_escalation_wf(2) is_HIGH_def)
  have c: "\<forall>p op_id now ag r rest.
          oa_operator_id p = Some op_id \<and> queue ag = r # rest
          \<longrightarrow> queue (fst (assign_to_operator p now ag)) = rest
              \<and> assigned_sessions (snd (assign_to_operator p now ag))
                  = [Some (e_session_id (heap ag ! r))]"
    by (simp add: assign_to_operator_pop(1,4))
  from a b c show ?thesis by blast
qed

theorem queue_two_level_order_witness:
  "assigned_sessions
     (snd (run (escalations_of
                  [(demo_escalation ''A'' (Some ''NORMAL''), 1),
                   (demo_escalation ''B'' (Some ''HIGH''), 2),
                   (demo_escalation ''C'' (Some ''NORMAL''), 3)]
                @ operators_of
                    [(demo_operator ''op-1'', 4), (demo_operator ''op-2'', 5),
                     (demo_operator ''op-3'', 6)])
             EscalationAgent_init))
     = [Some ''B'', Some ''A'', Some ''C'']"
  using queue_two_level_order[where ps = "[(demo_escalation ''A'' (Some ''NORMAL''), 1),
                   (demo_escalation ''B'' (Some ''HIGH''), 2),
                   (demo_escalation ''C'' (Some ''NORMAL''), 3)]"
      and os = "[(demo_operator ''op-1'', 4), (demo_operator ''op-2'', 5),
                     (demo_operator ''op-3'', 6)]"]
  by (simp add: demo_well_formed demo_is_HIGH demo_session demo_operator_id)

text \<open>
  The claim as stated fails for two HIGH records: the one enqueued last is assigned first.
\<close>

theorem queue_high_lifo_counterexample:
  "assigned_sessions
     (snd (run (escalations_of
                  [(demo_escalation ''H1'' (Some ''HIGH''), 1),
                   (demo_escalation ''H2'' (Some ''HIGH''), 2)]
                @ operators_of [(demo_operator ''op-1'', 3), (demo_operator ''op-2'', 4)])
             EscalationAgent_init))
     = [Some ''H2'', Some ''H1'']"
  using drain_order[where ps = "[(demo_escalation ''H1'' (Some ''HIGH''), 1),
                   (demo_escalation ''H2'' (Some ''HIGH''), 2)]"
      and os = "[(demo_operator ''op-1'', 3), (demo_operator ''op-2'', 4)]"]
  by (simp add: demo_well_formed demo_is_HIGH demo_session demo_operator_id)

text \<open>The two invariants hold after any sequence of events.\<close>

lemma active_ok_init: "active_ok EscalationAgent_init"
  by (simp add: active_ok_def EscalationAgent_init_def)

lemma active_ok_handle_escalation:
  assumes ok: "active_ok ag"
  shows "active_ok (fst (handle_escalation p now ag))"
proof (cases "well_formed p")
  case False
  then show ?thesis using ok
    by (auto simp add: well_formed_def handle_escalation_def split: option.splits)
next
  case True
  then obtain sid reason where s: "te_session_id p = Some sid" and r: "te_reason p = Some reason"
    by (auto simp add: well_formed_def)
  show ?thesis
    unfolding active_ok_def
  proof (intro allI impI)
    fix k a
    assume h: "active_escalations (fst (handle_escalation p now ag)) k = Some a"
    show "a < length (heap (fst (handle_escalation p now ag)))
        \<and> e_session_id (heap (fst (handle_escalation p now ag)) ! a) = k"
    proof (cases "k = sid")
      case True
      with h have "a = length (heap ag)" by (simp add: handle_escalation_wf[OF s r])
      with True show ?thesis by (simp add: handle_escalation_wf[OF s r])
    next
      case False
      with h have "active_escalations ag k = Some a"
        by (simp add: handle_escalation_wf[OF s r])
      with ok have "a < length (heap ag)" and "e_session_id (heap ag ! a) = k"
        by (simp_all add: active_ok_def)
      then show ?thesis by (simp add: handle_escalation_wf[OF s r] nth_append)
    qed
  qed
qed

lemma active_ok_assign_to_operator:
  assumes ok: "active_ok ag"
  shows "active_ok (fst (assign_to_operator p now ag))"
proof (cases "oa_operator_id p")
  case None
  then show ?thesis using ok by (simp add: assign_to_operator_def)
next
  case (Some op_id)
  show ?thesis
  proof (cases "queue ag")
    case Nil
    then show ?thesis using ok Some by (simp add: assign_to_operator_def Let_def)
  next
    case (Cons r rest)
    show ?thesis
      unfolding active_ok_def
    proof (intro allI impI)
      fix k a
      assume "active_escalations (fst (assign_to_operator p now ag)) k = Some a"
      then have "active_escalations ag k = Some a"
        by (simp add: assign_to_operator_pop[OF Some Cons])
      with ok have "a < length (heap ag)" and "e_session_id (heap ag ! a) = k"
        by (simp_all add: active_ok_def)
      then show "a < length (heap (fst (assign_to_operator p now ag)))
          \<and> e_session_id (heap (fst (assign_to_operator p now ag)) ! a) = k"
        by (cases "a = r") (simp_all add: assign_to_operator_pop[OF Some Cons])
    qed
  qed
qed

lemma handle_resolution_frame:
  "heap (fst (handle_resolution p now ag)) = heap ag"
  "queue (fst (handle_resolution p now ag)) = queue ag"
  by (simp_all add: handle_resolution_def split: option.splits)

lemma active_ok_handle_resolution:
  assumes ok: "active_ok ag"
  shows "active_ok (fst (handle_resolution p now ag))"
  using ok unfolding active_ok_def
  by (auto simp add: handle_resolution_def split: option.splits if_splits)

lemma queue_ok_handle_resolution:
  "queue_ok ag \<Longrightarrow> queue_ok (fst (handle_resolution p now ag))"
  by (simp add: queue_ok_def handle_resolution_frame)

lemma invariants_dispatch:
  "queue_ok ag \<and> active_ok ag \<Longrightarrow> queue_ok (fst (dispatch e now ag)) \<and> active_ok (fst (dispatch e now ag))"
  by (cases e)
    (simp_all add: queue_ok_handle_escalation active_ok_handle_escalation
      queue_ok_assign_to_operator active_ok_assign_to_operator
      queue_ok_handle_resolution active_ok_handle_resolution)

lemma invariants_run:
  "queue_ok ag \<and> active_ok ag \<Longrightarrow> queue_ok (fst (run es ag)) \<and> active_ok (fst (run es ag))"
proof (induction es arbitrary: ag)
  case Nil
  then show ?case by simp
next
  case (Cons e es)
  from Cons.IH[OF invariants_dispatch[OF Cons.prems, of "fst e" "snd e"]]
  show ?case by (simp add: case_prod_beta)
qed

lemma invariants_reachable:
  "queue_ok (fst (run es EscalationAgent_init))" "active_ok (fst (run es EscalationAgent_init))"
  using invariants_run[of EscalationAgent_init es] queue_ok_init active_ok_init by simp_all

text \<open>
  C3, as amended. After any sequence of events handled by a new agent: the map of active
  escalations holds at most one record per session id, a record of that very session;
  every record in the queue has status QUEUED; and the queue is not deduplicated: a
  well-formed escalation request for session \<open>sid\<close> adds one more QUEUED record of \<open>sid\<close> to
  the queue, whatever the queue already holds for \<open>sid\<close>, and makes the new record the one the
  map holds for \<open>sid\<close>.
\<close>

theorem escalation_not_deduplicated:
  assumes s: "te_session_id p = Some sid" and r: "te_reason p = Some reason"
  shows "(\<forall>k a. active_escalations (fst (run es EscalationAgent_init)) k = Some a
            \<longrightarrow> a < length (heap (fst (run es EscalationAgent_init)))
                \<and> e_session_id (heap (fst (run es EscalationAgent_init)) ! a) = k)
    \<and> list_all (\<lambda>a. e_status (heap (fst (run es EscalationAgent_init)) ! a) = ''QUEUED'')
         (queue (fst (run es EscalationAgent_init)))
    \<and> count_list (queue_sessions (fst (handle_escalation p now (fst (run es EscalationAgent_init))))) sid
        = count_list (queue_sessions (fst (run es EscalationAgent_init))) sid + 1
    \<and> active_escalations (fst (handle_escalation p now (fst (run es EscalationAgent_init)))) sid
        = Some (length (heap (fst (run es EscalationAgent_init))))
    \<and> e_status (heap (fst (handle_escalation p now (fst (run es EscalationAgent_init))))
                 ! length (heap (fst (run es EscalationAgent_init)))) = ''QUEUED''"
proof -
  let ?ag = "fst (run es EscalationAgent_init)"
  have qok: "queue_ok ?ag" and aok: "active_ok ?ag"
    by (rule invariants_reachable)+
  have a: "\<forall>k a. active_escalations ?ag k = Some a
            \<longrightarrow> a < length (heap ?ag) \<and> e_session_id (heap ?ag ! a) = k"
    using aok by (simp add: active_ok_def)
  have b: "list_all (\<lambda>a. e_status (heap ?ag ! a) = ''QUEUED'') (queue ?ag)"
    using qok by (simp add: queue_ok_def list_all_iff)
  have c: "count_list (queue_sessions (fst (handle_escalation p now ?ag))) sid
        = count_list (queue_sessions ?ag) sid + 1"
    by (simp add: queue_sessions_handle_escalation[OF qok s r])
  have d: "active_escalations (fst (handle_escalation p now ?ag)) sid = Some (length (heap ?ag))"
    by (simp add: handle_escalation_wf[OF s r])
  have e: "e_status (heap (fst (handle_escalation p now ?ag)) ! length (heap ?ag)) = ''QUEUED''"
    by (simp add: handle_escalation_wf[OF s r])
  from a b c d e show ?thesis by blast
qed

lemma one_queued_state:
  "heap one_queued =
     [\<lparr>e_session_id = ''s1'', e_reason = ''LOW_INTENT_CONFIDENCE'', e_details = JDict [],
       e_context = JNull, e_priority = ''NORMAL'', escalated_at = 1, e_status = ''QUEUED'',
       e_operator_id = None, assigned_at = None, queue_position = 1\<rparr>]"
  "queue one_queued = [0]"
  "active_escalations one_queued ''s1'' = Some 0"
  by (simp_all add: one_queued_def handle_escalation_def Let_def demo_escalation_def
      EscalationAgent_init_def)

lemma demo_reason: "te_reason (demo_escalation sid priority) = Some ''LOW_INTENT_CONFIDENCE''"
  by (simp add: demo_escalation_def)

lemma run_one_queued:
  "fst (run [(TASK_ESCALATE (demo_escalation ''s1'' None), 1)] EscalationAgent_init) = one_queued"
  by (simp add: one_queued_def)

theorem escalation_not_deduplicated_witness:
  "count_list (queue_sessions (fst (handle_escalation (demo_escalation ''s1'' None) 2 one_queued))) ''s1'' = 2
   \<and> active_escalations (fst (handle_escalation (demo_escalation ''s1'' None) 2 one_queued)) ''s1''
       = Some 1
   \<and> active_escalations one_queued ''s1'' = Some 0"
proof -
  note t = escalation_not_deduplicated[OF demo_session demo_reason,
      where es = "[(TASK_ESCALATE (demo_escalation ''s1'' None), 1)]" and now = 2,
      unfolded run_one_queued]
  from t have "count_list (queue_sessions (fst (handle_escalation (demo_escalation ''s1'' None) 2 one_queued))) ''s1''
      = count_list (queue_sessions one_queued) ''s1'' + 1"
    and "active_escalations (fst (handle_escalation (demo_escalation ''s1'' None) 2 one_queued)) ''s1''
      = Some (length (heap one_queued))"
    by blast+
  then show ?thesis
    by (simp add: one_queued_state queue_sessions_def)
qed

text \<open>
  The claim as stated fails on a second escalation request for a session whose record is
  still queued: the queue then holds two QUEUED records of that session.
\<close>

theorem two_queued_records_counterexample:
  "queue (fst (handle_escalation (demo_escalation ''s1'' None) 2 one_queued)) = [0, 1]
   \<and> map e_session_id (heap (fst (handle_escalation (demo_escalation ''s1'' None) 2 one_queued)))
       = [''s1'', ''s1'']
   \<and> map e_status (heap (fst (handle_escalation (demo_escalation ''s1'' None) 2 one_queued)))
       = [''QUEUED'', ''QUEUED'']"
  by (simp add: handle_escalation_wf[where sid = "''s1''" and reason = "''LOW_INTENT_CONFIDENCE''"]
      demo_escalation_def one_queued_state is_HIGH_def)

text \<open>
  C9. A resolution event with a session id and an operator id: when the session is not in
  the map of active escalations, \<open>handle_resolution\<close> returns the agent as it was and only
  logs the warning (nothing is raised, nothing is published; an event that lacks the
  operator id is a no-op as well, logged as an error); when it is, the handler
  removes the session from the map, moves the two counters and publishes one
  RESULT\_ESCALATION\_RESOLVED. The queue is the same in both cases. A second resolution
  event for the same session, right after the first, leaves the agent as the first left it
  and publishes nothing.
\<close>

theorem resolution_idempotent:
  assumes s: "rs_session_id p = Some sid" and o: "rs_operator_id p = Some op_id"
    and s': "rs_session_id p' = Some sid"
  shows "(active_escalations ag sid = None \<longrightarrow>
            handle_resolution p now ag
              = (ag, [Log WARNING (''[Escalation Agent] Session '' @ sid
                                   @ '' not found in active escalations'')]))
    \<and> (active_escalations ag sid \<noteq> None \<longrightarrow>
            fst (handle_resolution p now ag)
              = ag\<lparr>active_escalations := (active_escalations ag)(sid := None),
                    assigned := assigned ag - 1, resolved := resolved ag + 1\<rparr>
            \<and> published (snd (handle_resolution p now ag)) = [''RESULT_ESCALATION_RESOLVED''])
    \<and> (active_escalations ag sid = None \<longrightarrow>
            fst (handle_resolution p' now ag) = ag
            \<and> published (snd (handle_resolution p' now ag)) = [])
    \<and> queue (fst (handle_resolution p now ag)) = queue ag
    \<and> fst (handle_resolution p' now' (fst (handle_resolution p now ag)))
        = fst (handle_resolution p now ag)
    \<and> published (snd (handle_resolution p' now' (fst (handle_resolution p now ag)))) = []"
proof -
  have a: "active_escalations ag sid = None \<longrightarrow>
            handle_resolution p now ag
              = (ag, [Log WARNING (''[Escalation Agent] Session '' @ sid
                                   @ '' not found in active escalations'')])"
    using s o by (simp add: handle_resolution_def)
  have b: "active_escalations ag sid \<noteq> None \<longrightarrow>
            fst (handle_resolution p now ag)
              = ag\<lparr>active_escalations := (active_escalations ag)(sid := None),
                    assigned := assigned ag - 1, resolved := resolved ag + 1\<rparr>
            \<and> published (snd (handle_resolution p now ag)) = [''RESULT_ESCALATION_RESOLVED'']"
    using s o by (auto simp add: handle_resolution_def)
  have n: "active_escalations ag sid = None \<longrightarrow>
            fst (handle_resolution p' now ag) = ag
            \<and> published (snd (handle_resolution p' now ag)) = []"
    using s' by (simp add: handle_resolution_def split: option.splits)
  have gone: "active_escalations (fst (handle_resolution p now ag)) sid = None"
    using s o by (simp add: handle_resolution_def split: option.splits)
  have c: "fst (handle_resolution p' now' (fst (handle_resolution p now ag)))
        = fst (handle_resolution p now ag)"
    using s' gone by (simp add: handle_resolution_def[of p'] split: option.splits)
  have d: "published (snd (handle_resolution p' now' (fst (handle_resolution p now ag)))) = []"
    using s' gone by (simp add: handle_resolution_def[of p'] split: option.splits)
  from a b n c d handle_resolution_frame(2)[of p now ag] show ?thesis by blast
qed

theorem resolution_idempotent_witness:
  "active_escalations one_queued ''s1'' \<noteq> None
   \<and> published (snd (handle_resolution (demo_resolution ''s1'' ''op-1'') 5 one_queued))
       = [''RESULT_ESCALATION_RESOLVED'']
   \<and> handle_resolution (demo_resolution ''s1'' ''op-1'') 6
        (fst (handle_resolution (demo_resolution ''s1'' ''op-1'') 5 one_queued))
       = (fst (handle_resolution (demo_resolution ''s1'' ''op-1'') 5 one_queued),
          [Log WARNING ''[Escalation Agent] Session s1 not found in active escalations''])"
proof -
  have g: "active_escalations (fst (handle_resolution (demo_resolution ''s1'' ''op-1'') 5 one_queued)) ''s1''
      = None"
    by (simp add: handle_resolution_def demo_resolution_def one_queued_state)
  show ?thesis
    using resolution_idempotent[where p = "demo_resolution ''s1'' ''op-1''" and sid = "''s1''"
        and op_id = "''op-1''" and p' = "demo_resolution ''s1'' ''op-1''" and ag = one_queued
        and now = 5 and now' = 6]
      resolution_idempotent[where p = "demo_resolution ''s1'' ''op-1''" and sid = "''s1''"
        and op_id = "''op-1''" and p' = "demo_resolution ''s1'' ''op-1''"
        and ag = "fst (handle_resolution (demo_resolution ''s1'' ''op-1'') 5 one_queued)"
        and now = 6 and now' = 7] g
    by (simp add: demo_resolution_def one_queued_state)
qed



end
